theory Spec2Isabelle
  imports Main
begin

section \<open>Strings and numbers of the host language\<close>

text \<open>
  A string is a list of code units; the model covers code units below 256. A number that
  the program reads or compares is an integer or NaN: \<open>None\<close> stands for NaN. The only
  arithmetic on such numbers is one subtraction followed by one comparison with 300, and
  on integers that comparison has the same outcome in exact arithmetic as in doubles.
\<close>

type_synonym number = "int option"

definition js_sub :: "number \<Rightarrow> number \<Rightarrow> number" where
  "js_sub a b = (case a of None \<Rightarrow> None | Some x \<Rightarrow> (case b of None \<Rightarrow> None | Some y \<Rightarrow> Some (x - y)))"

definition js_lt :: "number \<Rightarrow> number \<Rightarrow> bool" where
  "js_lt a b = (case a of None \<Rightarrow> False | Some x \<Rightarrow> (case b of None \<Rightarrow> False | Some y \<Rightarrow> x < y))"

text \<open>Decimal rendering of numbers, as template strings and \<open>toString\<close> produce it.\<close>

definition digit_char :: "nat \<Rightarrow> char" where
  "digit_char d =
     (if d = 0 then CHR ''0'' else if d = 1 then CHR ''1'' else if d = 2 then CHR ''2''
      else if d = 3 then CHR ''3'' else if d = 4 then CHR ''4'' else if d = 5 then CHR ''5''
      else if d = 6 then CHR ''6'' else if d = 7 then CHR ''7'' else if d = 8 then CHR ''8''
      else CHR ''9'')"

fun show_nat :: "nat \<Rightarrow> string" where
  "show_nat n = (if n < 10 then [digit_char n] else show_nat (n div 10) @ [digit_char (n mod 10)])"

declare show_nat.simps [simp del]

definition show_int :: "int \<Rightarrow> string" where
  "show_int i = (if i < 0 then CHR ''-'' # show_nat (nat (- i)) else show_nat (nat i))"

definition show_number :: "number \<Rightarrow> string" where
  "show_number x = (case x of None \<Rightarrow> ''NaN'' | Some i \<Rightarrow> show_int i)"

text \<open>A hash field holds a string or \<open>null\<close>; a template string renders \<open>null\<close> by name.\<close>

definition show_hash :: "string option \<Rightarrow> string" where
  "show_hash h = (case h of None \<Rightarrow> ''null'' | Some s \<Rightarrow> s)"

text \<open>
  \<open>parseInt\<close> with no radix argument: leading white space is skipped, a sign is read, a
  prefix \<open>0x\<close> or \<open>0X\<close> selects radix 16, and the longest run of digits of the radix is
  the number; no digit at all gives NaN.
\<close>

definition isWhiteSpace :: "char \<Rightarrow> bool" where
  "isWhiteSpace c = ((of_char c :: nat) \<in> {9, 10, 11, 12, 13, 32, 160})"

definition digit_value :: "char \<Rightarrow> nat option" where
  "digit_value c =
     (let n = (of_char c :: nat) in
      if 48 \<le> n \<and> n \<le> 57 then Some (n - 48)
      else if 97 \<le> n \<and> n \<le> 122 then Some (n - 87)
      else if 65 \<le> n \<and> n \<le> 90 then Some (n - 55)
      else None)"

definition is_digit :: "nat \<Rightarrow> char \<Rightarrow> bool" where
  "is_digit R c = (case digit_value c of None \<Rightarrow> False | Some d \<Rightarrow> d < R)"

definition mathInt :: "nat \<Rightarrow> string \<Rightarrow> nat" where
  "mathInt R Z = foldl (\<lambda>acc c. acc * R + (case digit_value c of None \<Rightarrow> 0 | Some d \<Rightarrow> d)) 0 Z"

definition parseInt :: "string \<Rightarrow> number" where
  "parseInt inputString =
     (let S = dropWhile isWhiteSpace inputString;
          sign = (case S of [] \<Rightarrow> 1 | c # _ \<Rightarrow> if c = CHR ''-'' then - 1 else (1::int));
          S1 = (case S of [] \<Rightarrow> [] | c # cs \<Rightarrow> if c = CHR ''+'' \<or> c = CHR ''-'' then cs else S);
          hex = (take 2 S1 = ''0x'' \<or> take 2 S1 = ''0X'');
          R = (if hex then 16 else 10);
          S2 = (if hex then drop 2 S1 else S1);
          Z = takeWhile (is_digit R) S2
      in if Z = [] then None else Some (sign * int (mathInt R Z)))"

text \<open>\<open>String.prototype.split\<close> with a one-character separator.\<close>

fun split :: "char \<Rightarrow> string \<Rightarrow> string list" where
  "split sep [] = [[]]"
| "split sep (c # cs) =
     (if c = sep then [] # split sep cs
      else (case split sep cs of [] \<Rightarrow> [[c]] | f # fs \<Rightarrow> (c # f) # fs))"

text \<open>
  Reading an array past its end gives \<open>undefined\<close>, and \<open>parseInt\<close> converts its
  argument to a string first, so it sees the text \<open>undefined\<close> there.
\<close>

definition index :: "'a list \<Rightarrow> nat \<Rightarrow> 'a option" where
  "index xs i = (if i < length xs then Some (xs ! i) else None)"

definition ToString :: "string option \<Rightarrow> string" where
  "ToString v = (case v of None \<Rightarrow> ''undefined'' | Some s \<Rightarrow> s)"

section \<open>Time\<close>

text \<open>
  \<open>Time.now\<close> reads the clock in milliseconds (\<open>ms\<close>, an integer), writes it in decimal,
  drops the last three characters and parses what is left.
\<close>

definition slice_0_minus3 :: "string \<Rightarrow> string" where
  "slice_0_minus3 s = take (length s - 3) s"

definition Time_now :: "int \<Rightarrow> number" where
  "Time_now ms = parseInt (slice_0_minus3 (show_int ms))"

section \<open>Blocks\<close>

text \<open>
  The payloads the chain builds: the genesis payload \<open>{data: 'Genesis Block'}\<close> and the
  star registration \<open>{owner, message, signature, star}\<close>. Reading a field that an
  object does not have gives \<open>undefined\<close>, rendered as \<open>None\<close>.
\<close>

datatype 's payload =
  Data string
  | Registration string string string 's

fun field_owner :: "'s payload \<Rightarrow> string option" where
  "field_owner (Data d) = None"
| "field_owner (Registration a m sg st) = Some a"

fun field_star :: "'s payload \<Rightarrow> 's option" where
  "field_star (Data d) = None"
| "field_star (Registration a m sg st) = Some st"

text \<open>
  A block has the identity fields that the chain reads and writes (\<open>hash\<close>, \<open>height\<close>,
  \<open>time\<close>, \<open>previousBlockHash\<close>) and a body. The hash fields hold a string or \<open>null\<close>.
\<close>

record 's block =
  hash :: "string option"
  height :: int
  body :: "'s payload"
  time :: number
  previousBlockHash :: "string option"

text \<open>
  Modelled from the spec: the constructor of \<open>Block\<close>, whose file (\<open>block.js\<close>) is not
  among the sources. The spec describes a candidate as payload-only, with no identity
  field set: the hash fields are \<open>null\<close>; height and time are overwritten by the chain
  before they are read.
\<close>

definition new_Block :: "'s payload \<Rightarrow> 's block" where
  "new_Block data = \<lparr>hash = None, height = 0, body = data, time = Some 0, previousBlockHash = None\<rparr>"

text \<open>
  What the chain calls and does not define: the digest, the serialization of a block, the
  signature check, and the two methods of \<open>Block\<close> (\<open>validate\<close>, \<open>getBData\<close>).
  They are parameters of every operation. The signature check returns a boolean or throws
  an error (\<open>Inl\<close>, with its message), as it does on a signature or an address that is
  not well formed.
\<close>

record 's externals =
  SHA256 :: "string \<Rightarrow> string"
  JSON_stringify :: "'s block \<Rightarrow> string"
  verify :: "string \<Rightarrow> string \<Rightarrow> string \<Rightarrow> string + bool"
  validate :: "'s block \<Rightarrow> bool"
  getBData :: "'s block \<Rightarrow> 's payload option"

text \<open>
  Modelled from the spec: \<open>Block.validate\<close> (the spec's \<open>selfValidate\<close>), which
  recomputes the hash of the block with the hash field left out and compares it with the
  stored hash.
\<close>

definition selfValidate :: "(string \<Rightarrow> string) \<Rightarrow> ('s block \<Rightarrow> string) \<Rightarrow> 's block \<Rightarrow> bool" where
  "selfValidate digest encode b = (hash b = Some (digest (encode (b\<lparr>hash := None\<rparr>))))"

section \<open>The chain\<close>

text \<open>
  The state of a \<open>Blockchain\<close>: the array \<open>chain\<close> and the field \<open>height\<close> (here
  \<open>chain_height\<close>), which the constructor sets to \<open>-1\<close>.
\<close>

record 's blockchain =
  chain :: "'s block list"
  chain_height :: int

text \<open>
  How a promise ends: resolved with a value, rejected with a reason, or never settled. The
  reasons are an error log, a message, or the \<open>TypeError\<close> of reading a property of
  \<open>undefined\<close>.
\<close>

datatype rejection = ErrorLog "string list" | Message string | TypeError

datatype 'a promise = Resolved 'a | Rejected rejection | Unsettled

subsection \<open>validateChain\<close>

definition linkage_message :: "nat \<Rightarrow> string option \<Rightarrow> string option \<Rightarrow> string" where
  "linkage_message i stored actual =
     ''Block '' @ show_nat i @ '' previousBlockHash set to '' @ show_hash stored
       @ '', but actual previous block hash was '' @ show_hash actual"

definition content_message :: "nat \<Rightarrow> string option \<Rightarrow> string" where
  "content_message i stored = ''Block '' @ show_nat i @ '' hash ('' @ show_hash stored @ '') is invalid''"

text \<open>
  One round of the first loop, at position \<open>i\<close>: the messages it pushes, or the
  \<open>TypeError\<close> of \<open>previousBlock.hash\<close> when \<open>chain[i - 1]\<close> is \<open>undefined\<close>.
\<close>

definition check_link :: "'s block list \<Rightarrow> nat \<Rightarrow> rejection + string list" where
  "check_link blocks i =
     (let block = blocks ! i in
      if height block > 0 then
        (if i = 0 then Inl TypeError
         else
           let previousBlock = blocks ! (i - 1) in
           if previousBlockHash block \<noteq> hash previousBlock
           then Inr [linkage_message i (previousBlockHash block) (hash previousBlock)]
           else Inr [])
      else Inr [])"

fun forEach_link :: "'s block list \<Rightarrow> nat list \<Rightarrow> string list \<Rightarrow> rejection + string list" where
  "forEach_link blocks [] errorLog = Inr errorLog"
| "forEach_link blocks (i # rest) errorLog =
     (case check_link blocks i of
        Inl e \<Rightarrow> Inl e
      | Inr msgs \<Rightarrow> forEach_link blocks rest (errorLog @ msgs))"

text \<open>The second loop, over the results of \<open>validate\<close> on every block.\<close>

definition check_content :: "'s externals \<Rightarrow> 's block list \<Rightarrow> nat \<Rightarrow> string list" where
  "check_content ext blocks i =
     (if \<not> validate ext (blocks ! i) then [content_message i (hash (blocks ! i))] else [])"

definition validateChain :: "'s externals \<Rightarrow> 's blockchain \<Rightarrow> string list promise" where
  "validateChain ext s =
     (case forEach_link (chain s) [0..<length (chain s)] [] of
        Inl e \<Rightarrow> Rejected e
      | Inr errorLog \<Rightarrow>
          Resolved (errorLog @ concat (map (check_content ext (chain s)) [0..<length (chain s)])))"

subsection \<open>addBlock\<close>

text \<open>
  The candidate is a block that the caller has just constructed, as at both call sites;
  the model passes it by value. \<open>identify\<close> is the block as it is pushed: height, time,
  previous hash, then the hash of the serialization of the block as it stands.
\<close>

definition identify :: "'s externals \<Rightarrow> int \<Rightarrow> 's blockchain \<Rightarrow> 's block \<Rightarrow> 's block" where
  "identify ext ms s block =
     (let b1 = block\<lparr>height := int (length (chain s)), time := Time_now ms\<rparr>;
          b2 = (if length (chain s) > 0 then b1\<lparr>previousBlockHash := hash (last (chain s))\<rparr> else b1)
      in b2\<lparr>hash := Some (SHA256 ext (JSON_stringify ext b2))\<rparr>)"

definition push :: "'s blockchain \<Rightarrow> 's block \<Rightarrow> 's blockchain" where
  "push s b = s\<lparr>chain := chain s @ [b]\<rparr>"

definition pop :: "'s blockchain \<Rightarrow> 's blockchain" where
  "pop s = s\<lparr>chain := butlast (chain s)\<rparr>"

text \<open>
  The rejection of \<open>validateChain\<close> has no handler: the promise of \<open>addBlock\<close> then
  never settles and the pushed block stays.
\<close>

definition addBlock :: "'s externals \<Rightarrow> int \<Rightarrow> 's blockchain \<Rightarrow> 's block \<Rightarrow> 's block promise \<times> 's blockchain" where
  "addBlock ext ms s block =
     (let b = identify ext ms s block;
          s1 = push s b
      in case validateChain ext s1 of
           Resolved errorLog \<Rightarrow>
             if length errorLog > 0 then (Rejected (ErrorLog errorLog), pop s1)
             else (Resolved b, s1)
         | Rejected e \<Rightarrow> (Unsettled, s1)
         | Unsettled \<Rightarrow> (Unsettled, s1))"

subsection \<open>initializeChain and the constructor\<close>

text \<open>
  \<open>initializeChain\<close> awaits \<open>addBlock\<close> and resolves with nothing; the constructor
  starts from the empty chain with height \<open>-1\<close> and keeps the state it leaves.
\<close>

definition initializeChain :: "'s externals \<Rightarrow> int \<Rightarrow> 's blockchain \<Rightarrow> unit promise \<times> 's blockchain" where
  "initializeChain ext ms s =
     (if chain_height s = - 1 then
        (let block = new_Block (Data ''Genesis Block'')
         in case addBlock ext ms s block of
              (Resolved b, s') \<Rightarrow> (Resolved (), s')
            | (Rejected e, s') \<Rightarrow> (Rejected e, s')
            | (Unsettled, s') \<Rightarrow> (Unsettled, s'))
      else (Resolved (), s))"

definition constructor :: "'s externals \<Rightarrow> int \<Rightarrow> 's blockchain" where
  "constructor ext ms = snd (initializeChain ext ms \<lparr>chain = [], chain_height = - 1\<rparr>)"

subsection \<open>The ownership gate\<close>

definition MESSAGE_TIME_INDEX :: nat where
  "MESSAGE_TIME_INDEX = 1"

definition requestMessageOwnershipVerification :: "int \<Rightarrow> string \<Rightarrow> string promise" where
  "requestMessageOwnershipVerification ms address =
     (let t = Time_now ms;
          message = address @ '':'' @ show_number t @ '':starRegistry''
      in Resolved message)"

text \<open>
  \<open>submitStar\<close> reads the clock itself (\<open>ms\<close>) and \<open>addBlock\<close> reads it again later
  (\<open>ms'\<close>). The third component of the result lists the calls of the signature check
  that were made, with their arguments. The executor is an async function with no
  \<open>try\<close>: an error thrown by the signature check rejects the promise of the executor,
  which nobody holds, so neither \<open>resolve\<close> nor \<open>reject\<close> is called and the promise
  that \<open>submitStar\<close> returned never settles.
\<close>

definition submitStar ::
  "'s externals \<Rightarrow> int \<Rightarrow> int \<Rightarrow> 's blockchain \<Rightarrow> string \<Rightarrow> string \<Rightarrow> string \<Rightarrow> 's
     \<Rightarrow> 's block promise \<times> 's blockchain \<times> (string \<times> string \<times> string) list" where
  "submitStar ext ms ms' s address message signature st =
     (let messageTime = parseInt (ToString (index (split CHR '':'' message) MESSAGE_TIME_INDEX));
          currentTime = Time_now ms
      in if js_lt (js_sub currentTime messageTime) (Some (5 * 60)) then
           (let calls = [(message, address, signature)]
            in case verify ext message address signature of
                 Inl thrown \<Rightarrow> (Unsettled, s, calls)
               | Inr verified \<Rightarrow>
                   if verified then
                     (let block = new_Block (Registration address message signature st);
                          (p, s') = addBlock ext ms' s block
                      in (p, s', calls))
                   else (Rejected (Message ''Signature is invalid''), s, calls))
         else (Rejected (Message ''Exceeded validation time of 5 minutes''), s, []))"

subsection \<open>Queries\<close>

definition getBlockByHash :: "'s blockchain \<Rightarrow> string \<Rightarrow> 's block promise" where
  "getBlockByHash s h =
     (case filter (\<lambda>block. hash block = Some h) (chain s) of
        [] \<Rightarrow> Rejected (Message ''No block with given hash exists'')
      | block # _ \<Rightarrow> Resolved block)"

text \<open>The height asked for is any number, NaN included; \<open>None\<close> in the result is \<open>null\<close>.\<close>

definition getBlockByHeight :: "'s blockchain \<Rightarrow> number \<Rightarrow> 's block option promise" where
  "getBlockByHeight s n =
     (case filter (\<lambda>p. Some (height p) = n) (chain s) of
        [] \<Rightarrow> Resolved None
      | block # _ \<Rightarrow> Resolved (Some block))"

text \<open>
  A decoded block is a payload or absent. The filter keeps the payloads whose owner is the
  address, so the projection to \<open>star\<close> is never applied to an absent one.
\<close>

definition getStarsByWalletAddress :: "'s externals \<Rightarrow> 's blockchain \<Rightarrow> string \<Rightarrow> 's option list promise" where
  "getStarsByWalletAddress ext s address =
     (let decodedBlocks = map (getBData ext) (chain s);
          stars = map (\<lambda>block. case block of None \<Rightarrow> None | Some d \<Rightarrow> field_star d)
                    (filter (\<lambda>block. case block of None \<Rightarrow> False | Some d \<Rightarrow> field_owner d = Some address)
                       decodedBlocks)
      in Resolved stars)"

section \<open>Chains built by the admission pipeline\<close>

text \<open>
  A call of the write path with its arguments and clock readings; a chain built by the
  pipeline is the state after the constructor and a list of such calls, one after the
  other.
\<close>

datatype 's call =
  AddBlock int "'s payload"
  | SubmitStar int int string string string 's

fun perform :: "'s externals \<Rightarrow> 's blockchain \<Rightarrow> 's call \<Rightarrow> 's blockchain" where
  "perform ext s (AddBlock ms data) = snd (addBlock ext ms s (new_Block data))"
| "perform ext s (SubmitStar ms ms' address message signature st) =
     fst (snd (submitStar ext ms ms' s address message signature st))"

definition built :: "'s externals \<Rightarrow> int \<Rightarrow> 's call list \<Rightarrow> 's blockchain" where
  "built ext ms calls = foldl (perform ext) (constructor ext ms) calls"

section \<open>An instance of the external functions\<close>

text \<open>
  A small digest, a serialization that writes every field in a fixed order, a signature
  check and a decoder, to run the operations on concrete chains.
\<close>

definition demo_digest :: "string \<Rightarrow> string" where
  "demo_digest s = show_nat (foldl (\<lambda>a c. (a * 31 + of_char c) mod 9973) 7 s)"

fun demo_payload :: "string payload \<Rightarrow> string" where
  "demo_payload (Data d) = ''data='' @ d"
| "demo_payload (Registration a m sg st) = ''owner='' @ a @ '',message='' @ m @ '',signature='' @ sg @ '',star='' @ st"

definition demo_stringify :: "string block \<Rightarrow> string" where
  "demo_stringify b =
     ''hash='' @ show_hash (hash b) @ '';height='' @ show_int (height b) @ '';body='' @ demo_payload (body b)
       @ '';time='' @ show_number (time b) @ '';previousBlockHash='' @ show_hash (previousBlockHash b)"

definition demo_verify :: "string \<Rightarrow> string \<Rightarrow> string \<Rightarrow> string + bool" where
  "demo_verify message address signature =
     (if take 7 signature = ''signed:'' then Inr (signature = ''signed:'' @ address @ ''/'' @ message)
      else Inl ''Invalid signature'')"

definition demo_getBData :: "string block \<Rightarrow> string payload option" where
  "demo_getBData b = (if height b = 0 then None else Some (body b))"

definition demo :: "string externals" where
  "demo = \<lparr>SHA256 = demo_digest, JSON_stringify = demo_stringify, verify = demo_verify,
            validate = selfValidate demo_digest demo_stringify, getBData = demo_getBData\<rparr>"

text \<open>The genesis block and the first star block that this instance produces.\<close>

definition demo_genesis :: "string block" where
  "demo_genesis = \<lparr>hash = Some ''5269'', height = 0, body = Data ''Genesis Block'',
     time = Some 1000, previousBlockHash = None\<rparr>"

definition demo_star :: "string payload" where
  "demo_star = Registration ''addr1'' ''addr1:1000:starRegistry'' ''signed:addr1/addr1:1000:starRegistry'' ''Vega''"

definition demo_block1 :: "string block" where
  "demo_block1 = \<lparr>hash = Some ''3145'', height = 1, body = demo_star,
     time = Some 1200, previousBlockHash = Some ''5269''\<rparr>"

definition demo_state0 :: "string blockchain" where
  "demo_state0 = \<lparr>chain = [demo_genesis], chain_height = - 1\<rparr>"

definition demo_state1 :: "string blockchain" where
  "demo_state1 = \<lparr>chain = [demo_genesis, demo_block1], chain_height = - 1\<rparr>"

definition demo_calls :: "string call list" where
  "demo_calls = [SubmitStar 1200000 1200001 ''addr1'' ''addr1:1000:starRegistry''
     ''signed:addr1/addr1:1000:starRegistry'' ''Vega'']"

text \<open>Chains changed after commit: a body rewritten, a height and a link rewritten.\<close>

definition demo_tampered0 :: "string blockchain" where
  "demo_tampered0 = \<lparr>chain = [demo_genesis\<lparr>body := Data ''Tampered''\<rparr>], chain_height = - 1\<rparr>"

definition demo_tampered1 :: "string blockchain" where
  "demo_tampered1 = \<lparr>chain = [demo_genesis, demo_block1\<lparr>height := 0, previousBlockHash := Some ''0000''\<rparr>],
     chain_height = - 1\<rparr>"

definition demo_tampered2 :: "string blockchain" where
  "demo_tampered2 = \<lparr>chain = [demo_genesis\<lparr>height := 1\<rparr>, demo_block1], chain_height = - 1\<rparr>"

section \<open>Properties of committed chains\<close>



definition hashes_ok :: "'s externals \<Rightarrow> 's blockchain \<Rightarrow> bool" where
  "hashes_ok ext s = list_all (selfValidate (SHA256 ext) (JSON_stringify ext)) (chain s)"

text \<open>
  The stars of an owner as the specification words them: go through the blocks in chain
  order, decode each payload, keep the star of a payload whose owner is the address, and
  pass over a payload that is absent or has no owner.
\<close>

fun stars_of_owner :: "'s externals \<Rightarrow> string \<Rightarrow> 's block list \<Rightarrow> 's list" where
  "stars_of_owner ext address [] = []"
| "stars_of_owner ext address (b # bs) =
     (case getBData ext b of
        None \<Rightarrow> stars_of_owner ext address bs
      | Some (Data d) \<Rightarrow> stars_of_owner ext address bs
      | Some (Registration a m sg st) \<Rightarrow>
          if a = address then st # stars_of_owner ext address bs else stars_of_owner ext address bs)"

section \<open>Evaluation on concrete inputs\<close>

lemmas number_eval = Time_now_def slice_0_minus3_def show_int_def show_nat.simps digit_char_def
  parseInt_def isWhiteSpace_def is_digit_def digit_value_def mathInt_def Let_def
  index_def ToString_def MESSAGE_TIME_INDEX_def js_lt_def js_sub_def show_number_def show_hash_def

lemmas demo_eval = demo_def demo_digest_def demo_stringify_def demo_verify_def demo_getBData_def

lemmas demo_blocks = demo_genesis_def demo_block1_def demo_star_def

lemma demo_fields:
  "height demo_genesis = 0" "hash demo_genesis = Some ''5269''" "previousBlockHash demo_genesis = None"
  "height demo_block1 = 1" "hash demo_block1 = Some ''3145''" "previousBlockHash demo_block1 = Some ''5269''"
  "time demo_genesis = Some 1000" "time demo_block1 = Some 1200"
  "body demo_genesis = Data ''Genesis Block''" "body demo_block1 = demo_star"
  by (simp_all add: demo_genesis_def demo_block1_def)

lemma identify_genesis:
  "identify demo 1000000 \<lparr>chain = [], chain_height = - 1\<rparr> (new_Block (Data ''Genesis Block'')) = demo_genesis"
  apply (simp add: identify_def new_Block_def number_eval)
  apply (simp add: demo_eval number_eval demo_genesis_def)
  done

lemma validate_genesis: "validate demo demo_genesis"
  apply (simp add: demo_def selfValidate_def demo_genesis_def)
  apply (simp add: demo_eval number_eval)
  done

lemma validate_block1: "validate demo demo_block1"
  apply (simp add: demo_def selfValidate_def demo_blocks)
  apply (simp add: demo_eval number_eval)
  done

lemma validateChain_state0: "validateChain demo demo_state0 = Resolved []"
  by (simp add: demo_state0_def validateChain_def check_link_def check_content_def validate_genesis
        demo_fields)

lemma constructor_demo: "constructor demo 1000000 = demo_state0"
  using validateChain_state0
  by (simp add: constructor_def initializeChain_def addBlock_def Let_def identify_genesis push_def
        demo_state0_def)

lemma identify_block1: "identify demo 1200001 demo_state0 (new_Block demo_star) = demo_block1"
  apply (simp add: identify_def new_Block_def number_eval demo_state0_def)
  apply (simp add: demo_eval number_eval demo_blocks)
  done

lemma push_block1: "push demo_state0 demo_block1 = demo_state1"
  by (simp add: push_def demo_state0_def demo_state1_def)

lemma validateChain_state1: "validateChain demo demo_state1 = Resolved []"
  by (simp add: demo_state1_def validateChain_def check_link_def check_content_def
        validate_genesis validate_block1 demo_fields)

lemma addBlock_demo: "addBlock demo 1200001 demo_state0 (new_Block demo_star) = (Resolved demo_block1, demo_state1)"
  by (simp add: addBlock_def Let_def identify_block1 push_block1 validateChain_state1)

lemma embedded_demo:
  "parseInt (ToString (index (split CHR '':'' ''addr1:1000:starRegistry'') MESSAGE_TIME_INDEX)) = Some 1000"
  by (simp add: number_eval)

lemma verify_demo:
  "verify demo ''addr1:1000:starRegistry'' ''addr1'' ''signed:addr1/addr1:1000:starRegistry'' = Inr True"
  by (simp add: demo_def demo_verify_def)

lemma submitStar_demo:
  "submitStar demo 1200000 1200001 demo_state0
     ''addr1'' ''addr1:1000:starRegistry'' ''signed:addr1/addr1:1000:starRegistry'' ''Vega''
   = (Resolved demo_block1, demo_state1,
      [(''addr1:1000:starRegistry'', ''addr1'', ''signed:addr1/addr1:1000:starRegistry'')])"
proof -
  have t: "Time_now 1200000 = Some 1200" by (simp add: number_eval)
  have a: "addBlock demo 1200001 demo_state0
      (new_Block (Registration ''addr1'' ''addr1:1000:starRegistry'' ''signed:addr1/addr1:1000:starRegistry'' ''Vega''))
    = (Resolved demo_block1, demo_state1)"
    using addBlock_demo by (simp add: demo_star_def)
  show ?thesis
    unfolding submitStar_def embedded_demo t
    by (simp add: verify_demo js_lt_def js_sub_def a)
qed

lemma built_demo: "built demo 1000000 demo_calls = demo_state1"
  by (simp add: built_def demo_calls_def constructor_demo submitStar_demo)

section \<open>The validator and the admission pipeline\<close>

lemma pop_push: "pop (push s b) = s"
  by (simp add: pop_def push_def)

lemma chain_push: "chain (push s b) = chain s @ [b]"
  by (simp add: push_def)

lemma check_link_Inl:
  "check_link blocks i = Inl e \<longleftrightarrow> i = 0 \<and> 0 < height (blocks ! 0) \<and> e = TypeError"
  by (auto simp: check_link_def Let_def)

lemma forEach_link_Inl:
  "forEach_link blocks idxs acc = Inl e \<longleftrightarrow> 0 \<in> set idxs \<and> 0 < height (blocks ! 0) \<and> e = TypeError"
proof (induction idxs arbitrary: acc)
  case Nil
  show ?case by simp
next
  case (Cons i rest)
  show ?case
  proof (cases "check_link blocks i")
    case (Inl e')
    then show ?thesis using check_link_Inl [of blocks i e'] by auto
  next
    case (Inr msgs)
    have "\<not> (i = 0 \<and> 0 < height (blocks ! 0))"
      using Inr check_link_Inl [of blocks i TypeError] by auto
    then show ?thesis using Inr Cons.IH [of "acc @ msgs"] by auto
  qed
qed

lemma validateChain_Rejected:
  "validateChain ext s = Rejected e \<longleftrightarrow> chain s \<noteq> [] \<and> 0 < height (chain s ! 0) \<and> e = TypeError"
proof (cases "forEach_link (chain s) [0..<length (chain s)] []")
  case (Inl e')
  then show ?thesis
    using forEach_link_Inl [of "chain s" "[0..<length (chain s)]" "[]" e']
    by (auto simp: validateChain_def)
next
  case (Inr msgs)
  then show ?thesis
    using forEach_link_Inl [of "chain s" "[0..<length (chain s)]" "[]" TypeError]
    by (auto simp: validateChain_def)
qed

lemma validateChain_settles: "validateChain ext s \<noteq> Unsettled"
  by (simp add: validateChain_def split: sum.splits)

lemma height_identify: "height (identify ext ms s block) = int (length (chain s))"
  by (simp add: identify_def Let_def)

lemma addBlock_cases:
  "addBlock ext ms s block = (p, s') \<Longrightarrow>
     (\<exists>errorLog. errorLog \<noteq> [] \<and> p = Rejected (ErrorLog errorLog) \<and> s' = s)
     \<or> (p = Resolved (identify ext ms s block) \<and> s' = push s (identify ext ms s block)
          \<and> validateChain ext s' = Resolved [])
     \<or> (p = Unsettled \<and> s' = push s (identify ext ms s block)
          \<and> validateChain ext s' = Rejected TypeError)"
  using validateChain_Rejected [of ext "push s (identify ext ms s block)"]
  by (auto simp: addBlock_def Let_def pop_push validateChain_settles split: promise.splits if_splits)

lemma addBlock_settles:
  assumes "validateChain ext s = Resolved errs"
  shows "fst (addBlock ext ms s block) \<noteq> Unsettled"
proof
  assume u: "fst (addBlock ext ms s block) = Unsettled"
  obtain p s' where ps: "addBlock ext ms s block = (p, s')" by (cases "addBlock ext ms s block")
  with u have "p = Unsettled" by simp
  with addBlock_cases [OF ps]
  have r: "validateChain ext (push s (identify ext ms s block)) = Rejected TypeError" by auto
  then have pos: "0 < height ((chain s @ [identify ext ms s block]) ! 0)"
    using validateChain_Rejected [of ext "push s (identify ext ms s block)" TypeError]
    by (simp add: chain_push)
  show False
  proof (cases "chain s")
    case Nil
    then show False using pos height_identify [of ext ms s block] by simp
  next
    case (Cons b bs)
    then have "0 < height (chain s ! 0)" using pos by simp
    then have "validateChain ext s = Rejected TypeError"
      using validateChain_Rejected [of ext s TypeError] Cons by simp
    with assms show False by simp
  qed
qed

lemma addBlock_valid:
  assumes "validateChain ext s = Resolved []"
  shows "validateChain ext (snd (addBlock ext ms s block)) = Resolved []"
proof -
  obtain p s' where ps: "addBlock ext ms s block = (p, s')" by (cases "addBlock ext ms s block")
  have "p \<noteq> Unsettled" using addBlock_settles [OF assms, of ms block] ps by simp
  with addBlock_cases [OF ps] assms have "validateChain ext s' = Resolved []" by auto
  then show ?thesis using ps by simp
qed

lemma submitStar_state:
  "fst (snd (submitStar ext ms ms' s address message signature st)) = s
   \<or> fst (snd (submitStar ext ms ms' s address message signature st))
       = snd (addBlock ext ms' s (new_Block (Registration address message signature st)))"
  by (simp add: submitStar_def Let_def split: prod.splits sum.splits)

lemma perform_state:
  "perform ext s c = s \<or> (\<exists>ms data. perform ext s c = snd (addBlock ext ms s (new_Block data)))"
proof (cases c)
  case (AddBlock ms data)
  then show ?thesis by auto
next
  case (SubmitStar ms ms' address message signature st)
  then show ?thesis
    using submitStar_state [of ext ms ms' s address message signature st] by auto
qed

lemma validateChain_empty: "validateChain ext \<lparr>chain = [], chain_height = h\<rparr> = Resolved []"
  by (simp add: validateChain_def)

lemma constructor_state:
  "constructor ext ms = snd (addBlock ext ms \<lparr>chain = [], chain_height = - 1\<rparr> (new_Block (Data ''Genesis Block'')))"
  by (simp add: constructor_def initializeChain_def Let_def split: prod.splits promise.splits)

lemma foldl_invariant:
  assumes "P s0" and "\<And>s c. P s \<Longrightarrow> P (f s c)"
  shows "P (foldl f s0 cs)"
  using assms(1)
proof (induction cs arbitrary: s0)
  case Nil
  then show ?case by simp
next
  case (Cons c cs)
  then show ?case using assms(2) by simp
qed

subsection \<open>Chains built by the pipeline validate\<close>

text \<open>
  C1. Every chain built through the admission pipeline alone, that is the state left by
  the constructor followed by any list of \<open>addBlock\<close> and \<open>submitStar\<close> calls on
  fresh candidates (whether they succeed or fail), is one on which \<open>validateChain\<close>
  resolves with the empty error list.
\<close>

theorem built_chain_validates:
  "validateChain ext (built ext ms calls) = Resolved []"
  unfolding built_def
proof (rule foldl_invariant)
  show "validateChain ext (constructor ext ms) = Resolved []"
    unfolding constructor_state by (rule addBlock_valid) (rule validateChain_empty)
next
  fix s c
  assume v: "validateChain ext s = Resolved []"
  from perform_state [of ext s c] show "validateChain ext (perform ext s c) = Resolved []"
    using v addBlock_valid [OF v] by auto
qed

text \<open>
  The chain really grows under the instance: the constructor and one submission leave two
  blocks, and that chain validates.
\<close>

theorem built_chain_validates_witness:
  "validateChain demo (built demo 1000000 demo_calls) = Resolved []
   \<and> length (chain (built demo 1000000 demo_calls)) = 2"
  using built_chain_validates [of demo 1000000 demo_calls]
  by (simp add: built_demo demo_state1_def)

subsection \<open>Commit or roll back\<close>

text \<open>
  C2. For every call of \<open>addBlock\<close> on any starting chain: when the validation of the
  whole chain after the append resolves with a non-empty error list, the call is rejected
  with exactly that list and the state is the state before the call; when it resolves
  with the empty list, the call resolves with the committed block, which is the new last
  element of the chain, behind the blocks that were there.
\<close>

theorem addBlock_commit_or_rollback:
  "validateChain ext (push s (identify ext ms s block)) = Resolved errorLog \<Longrightarrow>
     (errorLog \<noteq> [] \<longrightarrow> addBlock ext ms s block = (Rejected (ErrorLog errorLog), s))
     \<and> (errorLog = [] \<longrightarrow>
          addBlock ext ms s block = (Resolved (identify ext ms s block), push s (identify ext ms s block))
          \<and> chain (snd (addBlock ext ms s block)) = chain s @ [identify ext ms s block]
          \<and> last (chain (snd (addBlock ext ms s block))) = identify ext ms s block)"
  by (simp add: addBlock_def Let_def pop_push chain_push)

theorem addBlock_commit_or_rollback_witness:
  "addBlock demo 1200001 demo_tampered0 (new_Block demo_star)
     = (Rejected (ErrorLog [''Block 0 hash (5269) is invalid'']), demo_tampered0)
   \<and> addBlock demo 1200001 demo_state0 (new_Block demo_star) = (Resolved demo_block1, demo_state1)"
proof -
  have i: "identify demo 1200001 demo_tampered0 (new_Block demo_star) = demo_block1"
    apply (simp add: identify_def new_Block_def number_eval demo_tampered0_def)
    apply (simp add: demo_eval number_eval demo_blocks)
    done
  have n: "\<not> validate demo (demo_genesis\<lparr>body := Data ''Tampered''\<rparr>)"
    apply (simp add: demo_def selfValidate_def demo_genesis_def)
    apply (simp add: demo_eval number_eval)
    done
  have "validateChain demo (push demo_tampered0 demo_block1)
      = Resolved [content_message 0 (hash (demo_genesis\<lparr>body := Data ''Tampered''\<rparr>))]"
    by (simp add: push_def demo_tampered0_def validateChain_def check_link_def check_content_def
          n validate_block1 demo_fields)
  then have bad: "validateChain demo (push demo_tampered0 (identify demo 1200001 demo_tampered0 (new_Block demo_star)))
      = Resolved [''Block 0 hash (5269) is invalid'']"
    by (simp add: i content_message_def number_eval demo_fields)
  have good: "validateChain demo (push demo_state0 (identify demo 1200001 demo_state0 (new_Block demo_star)))
      = Resolved []"
    by (simp add: identify_block1 push_block1 validateChain_state1)
  show ?thesis
    using addBlock_commit_or_rollback [OF bad] addBlock_commit_or_rollback [OF good]
    by (simp add: identify_block1 push_block1)
qed

subsection \<open>Identity fields\<close>


lemma addBlock_Resolved:
  "addBlock ext ms s block = (Resolved b, s') \<Longrightarrow>
     b = identify ext ms s block \<and> s' = push s b \<and> validateChain ext s' = Resolved []"
  using addBlock_cases [of ext ms s block "Resolved b" s'] by auto

lemma addBlock_chain:
  "chain (snd (addBlock ext ms s block)) = chain s
   \<or> chain (snd (addBlock ext ms s block)) = chain s @ [identify ext ms s block]"
proof -
  obtain p s' where ps: "addBlock ext ms s block = (p, s')" by (cases "addBlock ext ms s block")
  from addBlock_cases [OF ps] show ?thesis using ps by (auto simp: chain_push)
qed







subsection \<open>The stored hash\<close>

lemma hash_update_None: "hash b = None \<Longrightarrow> b\<lparr>hash := None\<rparr> = b"
  by (cases b) simp

lemma identify_hash:
  assumes "hash block = None"
  shows "hash (identify ext ms s block)
       = Some (SHA256 ext (JSON_stringify ext ((identify ext ms s block)\<lparr>hash := None\<rparr>)))"
proof -
  define b2 where "b2 = (if length (chain s) > 0
      then block\<lparr>height := int (length (chain s)), time := Time_now ms,
                 previousBlockHash := hash (last (chain s))\<rparr>
      else block\<lparr>height := int (length (chain s)), time := Time_now ms\<rparr>)"
  have i: "identify ext ms s block = b2\<lparr>hash := Some (SHA256 ext (JSON_stringify ext b2))\<rparr>"
    by (simp add: identify_def Let_def b2_def)
  have "hash b2 = None" using assms by (simp add: b2_def)
  then have "b2\<lparr>hash := None\<rparr> = b2" by (rule hash_update_None)
  then show ?thesis by (simp add: i)
qed

lemma addBlock_hashes:
  assumes "hashes_ok ext s"
  shows "hashes_ok ext (snd (addBlock ext ms s (new_Block data)))"
  using addBlock_chain [of ext ms s "new_Block data"] assms
    identify_hash [of "new_Block data" ext ms s]
  by (auto simp: hashes_ok_def selfValidate_def new_Block_def)

lemma built_hashes: "hashes_ok ext (built ext ms calls)"
  unfolding built_def
proof (rule foldl_invariant)
  show "hashes_ok ext (constructor ext ms)"
    unfolding constructor_state by (rule addBlock_hashes) (simp add: hashes_ok_def)
next
  fix s :: "'a blockchain" and c
  assume h: "hashes_ok ext s"
  from perform_state [of ext s c] show "hashes_ok ext (perform ext s c)"
    using h addBlock_hashes [OF h] by auto
qed

text \<open>
  C3. The hash stored in a block that \<open>addBlock\<close> commits is the digest of the
  serialization of that block with the hash field holding no hash: for the block that a
  call on a fresh candidate resolves with, and for every block of a chain built by the
  pipeline.
\<close>

theorem committed_hash_is_digest:
  "(addBlock ext ms s (new_Block data) = (Resolved b, s') \<longrightarrow>
      hash b = Some (SHA256 ext (JSON_stringify ext (b\<lparr>hash := None\<rparr>))))
   \<and> (i < length (chain (built ext start calls)) \<longrightarrow>
        hash (chain (built ext start calls) ! i)
          = Some (SHA256 ext (JSON_stringify ext ((chain (built ext start calls) ! i)\<lparr>hash := None\<rparr>))))"
proof (intro conjI impI)
  assume a: "addBlock ext ms s (new_Block data) = (Resolved b, s')"
  from addBlock_Resolved [OF a] have "b = identify ext ms s (new_Block data)" by simp
  then show "hash b = Some (SHA256 ext (JSON_stringify ext (b\<lparr>hash := None\<rparr>)))"
    using identify_hash [of "new_Block data" ext ms s] by (simp add: new_Block_def)
next
  assume "i < length (chain (built ext start calls))"
  then show "hash (chain (built ext start calls) ! i)
          = Some (SHA256 ext (JSON_stringify ext ((chain (built ext start calls) ! i)\<lparr>hash := None\<rparr>)))"
    using built_hashes [of ext start calls]
    by (simp add: hashes_ok_def selfValidate_def list_all_length)
qed

theorem committed_hash_is_digest_witness:
  "hash demo_block1 = Some (SHA256 demo (JSON_stringify demo (demo_block1\<lparr>hash := None\<rparr>)))
   \<and> hash (chain (built demo 1000000 demo_calls) ! 1)
       = Some (SHA256 demo (JSON_stringify demo ((chain (built demo 1000000 demo_calls) ! 1)\<lparr>hash := None\<rparr>)))"
  using committed_hash_is_digest [where ext = demo and ms = 1200001 and s = demo_state0
      and data = demo_star and b = demo_block1 and s' = demo_state1
      and start = 1000000 and calls = demo_calls and i = 1]
  by (simp add: addBlock_demo built_demo demo_state1_def)

subsection \<open>What the validator reports\<close>

text \<open>
  When \<open>validateChain\<close> resolves, its list holds a linkage message for every position
  after the first whose block has a positive height and a previous hash other than the
  hash of the block before it, and a content message for every position whose block fails
  its own check. It resolves whenever the first block's height is not positive.
\<close>

lemma forEach_link_Inr:
  "forEach_link blocks idxs acc = Inr errorLog \<Longrightarrow>
     errorLog = acc @ concat (map (\<lambda>i. case check_link blocks i of Inl e \<Rightarrow> [] | Inr m \<Rightarrow> m) idxs)"
proof (induction idxs arbitrary: acc)
  case Nil
  then show ?case by simp
next
  case (Cons i rest)
  show ?case
  proof (cases "check_link blocks i")
    case (Inl e)
    with Cons.prems show ?thesis by simp
  next
    case (Inr m)
    with Cons.prems have r: "forEach_link blocks rest (acc @ m) = Inr errorLog" by simp
    from Cons.IH [OF r] Inr show ?thesis by simp
  qed
qed



lemma validateChain_resolves:
  assumes "chain s = [] \<or> height (chain s ! 0) \<le> 0"
  shows "\<exists>errorLog. validateChain ext s = Resolved errorLog"
proof (cases "validateChain ext s")
  case (Resolved errorLog)
  then show ?thesis by simp
next
  case (Rejected e)
  then have "chain s \<noteq> [] \<and> 0 < height (chain s ! 0)"
    using validateChain_Rejected [of ext s e] by simp
  with assms show ?thesis by linarith
next
  case Unsettled
  then show ?thesis using validateChain_settles [of ext s] by simp
qed

lemma in_concat_map: "i \<in> set xs \<Longrightarrow> x \<in> set (f i) \<Longrightarrow> x \<in> set (concat (map f xs))"
  by auto

lemma validateChain_Resolved:
  assumes "validateChain ext s = Resolved errorLog"
  shows "\<exists>links. forEach_link (chain s) [0..<length (chain s)] [] = Inr links
     \<and> errorLog = links @ concat (map (check_content ext (chain s)) [0..<length (chain s)])"
proof (cases "forEach_link (chain s) [0..<length (chain s)] []")
  case (Inl e)
  with assms show ?thesis by (simp add: validateChain_def)
next
  case (Inr links)
  with assms show ?thesis by (simp add: validateChain_def)
qed


lemma check_link_mismatch:
  assumes "0 < i" and "0 < height (blocks ! i)"
    and "previousBlockHash (blocks ! i) \<noteq> hash (blocks ! (i - 1))"
  shows "check_link blocks i
     = Inr [linkage_message i (previousBlockHash (blocks ! i)) (hash (blocks ! (i - 1)))]"
proof -
  have "i \<noteq> 0" using assms(1) by simp
  then show ?thesis using assms(2,3) unfolding check_link_def Let_def by simp
qed

lemma validateChain_reports:
  assumes "validateChain ext s = Resolved errorLog"
  shows "(0 < i \<and> i < length (chain s) \<and> 0 < height (chain s ! i)
            \<and> previousBlockHash (chain s ! i) \<noteq> hash (chain s ! (i - 1)) \<longrightarrow>
          linkage_message i (previousBlockHash (chain s ! i)) (hash (chain s ! (i - 1))) \<in> set errorLog)
       \<and> (i < length (chain s) \<and> \<not> validate ext (chain s ! i) \<longrightarrow>
            content_message i (hash (chain s ! i)) \<in> set errorLog)"
proof -
  from validateChain_Resolved [OF assms] obtain links
    where l: "forEach_link (chain s) [0..<length (chain s)] [] = Inr links"
      and e: "errorLog = links @ concat (map (check_content ext (chain s)) [0..<length (chain s)])"
    by blast
  from forEach_link_Inr [OF l]
  have links: "links = concat (map (\<lambda>i. case check_link (chain s) i of Inl e \<Rightarrow> [] | Inr m \<Rightarrow> m)
      [0..<length (chain s)])" by simp
  show ?thesis
  proof (intro conjI impI)
    assume a: "0 < i \<and> i < length (chain s) \<and> 0 < height (chain s ! i)
            \<and> previousBlockHash (chain s ! i) \<noteq> hash (chain s ! (i - 1))"
    let ?m = "linkage_message i (previousBlockHash (chain s ! i)) (hash (chain s ! (i - 1)))"
    have c: "check_link (chain s) i = Inr [?m]"
      using a check_link_mismatch [of i "chain s"] by blast
    have i: "i \<in> set [0..<length (chain s)]" using a by simp
    have "?m \<in> set (case check_link (chain s) i of Inl e \<Rightarrow> [] | Inr m \<Rightarrow> m)"
      unfolding c by simp
    with i have "?m \<in> set links"
      unfolding links
      by (rule in_concat_map [where f = "\<lambda>i. case check_link (chain s) i of Inl e \<Rightarrow> [] | Inr m \<Rightarrow> m"])
    then show "?m \<in> set errorLog" unfolding e by simp
  next
    assume a: "i < length (chain s) \<and> \<not> validate ext (chain s ! i)"
    let ?m = "content_message i (hash (chain s ! i))"
    have c: "check_content ext (chain s) i = [?m]"
      using a by (simp add: check_content_def)
    have i: "i \<in> set [0..<length (chain s)]" using a by simp
    have "?m \<in> set (check_content ext (chain s) i)" unfolding c by simp
    with i have "?m \<in> set (concat (map (check_content ext (chain s)) [0..<length (chain s)]))"
      by (rule in_concat_map [where f = "check_content ext (chain s)"])
    then show "?m \<in> set errorLog" unfolding e by simp
  qed
qed

text \<open>
  C6. The claim asks for a linkage error at every position \<open>i > 0\<close> whose previous hash
  differs from the hash of the block before, on any chain, blocks changed after commit
  included, and for a scan that never stops early. The loop tests \<open>block.height > 0\<close>,
  not the position. On the chain whose second block had its height set to 0 and its
  previous hash set to \<open>0000\<close>, the result has the content message for position 1 and
  no linkage message, although the link is broken. On the chain whose first block had its
  height set to 1, the loop reads \<open>chain[-1].hash\<close> and the promise is rejected with a
  \<open>TypeError\<close> before any block is scanned.
\<close>

theorem validateChain_misses_link:
  "validateChain demo demo_tampered1 = Resolved [''Block 1 hash (3145) is invalid'']
   \<and> previousBlockHash (chain demo_tampered1 ! 1) \<noteq> hash (chain demo_tampered1 ! 0)
   \<and> validateChain demo demo_tampered2 = Rejected TypeError"
proof -
  have n: "\<not> validate demo (demo_block1\<lparr>height := 0, previousBlockHash := Some ''0000''\<rparr>)"
    apply (simp add: demo_def selfValidate_def demo_blocks)
    apply (simp add: demo_eval number_eval)
    done
  have a: "validateChain demo demo_tampered1 = Resolved [''Block 1 hash (3145) is invalid'']"
    by (simp add: demo_tampered1_def validateChain_def check_link_def check_content_def
          validate_genesis n demo_fields content_message_def number_eval)
  have b: "previousBlockHash (chain demo_tampered1 ! 1) \<noteq> hash (chain demo_tampered1 ! 0)"
    by (simp add: demo_tampered1_def demo_fields)
  have c: "validateChain demo demo_tampered2 = Rejected TypeError"
    by (simp add: demo_tampered2_def validateChain_Rejected)
  from a b c show ?thesis by blast
qed

subsection \<open>The ownership gate\<close>

text \<open>
  C4. When the clock reads \<open>now\<close> seconds, the second field of the message parses to
  \<open>embedded\<close> and \<open>now - embedded\<close> is at least 300, \<open>submitStar\<close> is rejected with
  the message of the expired validation window, the chain is unchanged, and the signature
  check is not called, whatever the externals are and so whether or not the signature
  would have verified.
\<close>

theorem submitStar_window_expired:
  "Time_now ms = Some now \<Longrightarrow>
   parseInt (ToString (index (split CHR '':'' message) MESSAGE_TIME_INDEX)) = Some embedded \<Longrightarrow>
   300 \<le> now - embedded \<Longrightarrow>
   submitStar ext ms ms' s address message signature st
     = (Rejected (Message ''Exceeded validation time of 5 minutes''), s, [])"
  by (simp add: submitStar_def Let_def js_lt_def js_sub_def)

theorem submitStar_window_expired_witness:
  "verify demo ''addr1:1000:starRegistry'' ''addr1'' ''signed:addr1/addr1:1000:starRegistry'' = Inr True
   \<and> submitStar demo 1400000 1400001 demo_state0
        ''addr1'' ''addr1:1000:starRegistry'' ''signed:addr1/addr1:1000:starRegistry'' ''Vega''
      = (Rejected (Message ''Exceeded validation time of 5 minutes''), demo_state0, [])"
proof -
  have t: "Time_now 1400000 = Some 1400" by (simp add: number_eval)
  have w: "(300::int) \<le> 1400 - 1000" by simp
  show ?thesis
    using submitStar_window_expired [OF t embedded_demo w, of demo 1400001 demo_state0 "''addr1''"
        "''signed:addr1/addr1:1000:starRegistry''" "''Vega''"] verify_demo
    by simp
qed

lemma submitStar_verify_false:
  "Time_now ms = Some now \<Longrightarrow>
   parseInt (ToString (index (split CHR '':'' message) MESSAGE_TIME_INDEX)) = Some embedded \<Longrightarrow>
   now - embedded < 300 \<Longrightarrow>
   verify ext message address signature = Inr False \<Longrightarrow>
   submitStar ext ms ms' s address message signature st
     = (Rejected (Message ''Signature is invalid''), s, [(message, address, signature)])"
  by (simp add: submitStar_def Let_def js_lt_def js_sub_def)

lemma submitStar_verify_throws:
  "Time_now ms = Some now \<Longrightarrow>
   parseInt (ToString (index (split CHR '':'' message) MESSAGE_TIME_INDEX)) = Some embedded \<Longrightarrow>
   now - embedded < 300 \<Longrightarrow>
   verify ext message address signature = Inl thrown \<Longrightarrow>
   submitStar ext ms ms' s address message signature st
     = (Unsettled, s, [(message, address, signature)])"
  by (simp add: submitStar_def Let_def js_lt_def js_sub_def)

text \<open>
  C5. The claim asks that every submission inside the 300 second window whose signature
  fails the signature check be rejected with the message of the invalid signature, with
  no block appended. That is what happens when the check returns \<open>false\<close>: the
  submission at second 1200 of the challenge of second 1000 with a well-formed signature
  of another address is rejected so, and the chain is unchanged. When the check throws, as
  on the signature \<open>forged\<close> that is not well formed, the promise never settles: the
  call is neither rejected with that message nor rejected at all; the chain is unchanged
  there too.
\<close>

theorem submitStar_malformed_signature_unsettled:
  "verify demo ''addr1:1000:starRegistry'' ''addr1'' ''signed:addr2/addr1:1000:starRegistry'' = Inr False
   \<and> submitStar demo 1200000 1200001 demo_state0 ''addr1'' ''addr1:1000:starRegistry''
        ''signed:addr2/addr1:1000:starRegistry'' ''Vega''
      = (Rejected (Message ''Signature is invalid''), demo_state0,
         [(''addr1:1000:starRegistry'', ''addr1'', ''signed:addr2/addr1:1000:starRegistry'')])
   \<and> verify demo ''addr1:1000:starRegistry'' ''addr1'' ''forged'' = Inl ''Invalid signature''
   \<and> submitStar demo 1200000 1200001 demo_state0 ''addr1'' ''addr1:1000:starRegistry'' ''forged'' ''Vega''
      = (Unsettled, demo_state0, [(''addr1:1000:starRegistry'', ''addr1'', ''forged'')])"
proof -
  have t: "Time_now 1200000 = Some 1200" by (simp add: number_eval)
  have w: "(1200::int) - 1000 < 300" by simp
  have f: "verify demo ''addr1:1000:starRegistry'' ''addr1'' ''signed:addr2/addr1:1000:starRegistry'' = Inr False"
    by (simp add: demo_def demo_verify_def)
  have v: "verify demo ''addr1:1000:starRegistry'' ''addr1'' ''forged'' = Inl ''Invalid signature''"
    by (simp add: demo_def demo_verify_def)
  note r = submitStar_verify_false [OF t embedded_demo w f, of 1200001 demo_state0 "''Vega''"]
  note u = submitStar_verify_throws [OF t embedded_demo w v, of 1200001 demo_state0 "''Vega''"]
  from f r v u show ?thesis by blast
qed

lemma split_no_separator: "sep \<notin> set cs \<Longrightarrow> split sep cs = [cs]"
  by (induction cs) auto

lemma parseInt_undefined: "parseInt ''undefined'' = None"
  by (simp add: parseInt_def Let_def isWhiteSpace_def is_digit_def digit_value_def)

text \<open>
  C10. When the second field of the message, split at colons, does not parse to an
  integer, the embedded time is NaN, the comparison is false, and \<open>submitStar\<close> is
  rejected with the message of the expired validation window, not with that of the
  invalid signature; the signature check is not called and the chain is unchanged. A
  message with no colon is such a message.
\<close>

theorem submitStar_unparseable_time:
  "(parseInt (ToString (index (split CHR '':'' message) MESSAGE_TIME_INDEX)) = None \<longrightarrow>
      submitStar ext ms ms' s address message signature st
        = (Rejected (Message ''Exceeded validation time of 5 minutes''), s, []))
   \<and> (CHR '':'' \<notin> set message \<longrightarrow>
        parseInt (ToString (index (split CHR '':'' message) MESSAGE_TIME_INDEX)) = None)"
  by (simp add: submitStar_def Let_def js_lt_def js_sub_def split_no_separator index_def
        MESSAGE_TIME_INDEX_def ToString_def parseInt_undefined split: option.splits)

theorem submitStar_unparseable_time_witness:
  "CHR '':'' \<notin> set ''addr1 starRegistry''
   \<and> parseInt (ToString (index (split CHR '':'' ''addr1 starRegistry'') MESSAGE_TIME_INDEX)) = None
   \<and> submitStar demo 1200000 1200001 demo_state0 ''addr1'' ''addr1 starRegistry''
        ''signed:addr1/addr1 starRegistry'' ''Vega''
      = (Rejected (Message ''Exceeded validation time of 5 minutes''), demo_state0, [])
   \<and> verify demo ''addr1 starRegistry'' ''addr1'' ''signed:addr1/addr1 starRegistry'' = Inr True"
proof -
  have c: "CHR '':'' \<notin> set ''addr1 starRegistry''" by simp
  have v: "verify demo ''addr1 starRegistry'' ''addr1'' ''signed:addr1/addr1 starRegistry'' = Inr True"
    by (simp add: demo_def demo_verify_def)
  note th = submitStar_unparseable_time [where message = "''addr1 starRegistry''" and ext = demo
      and ms = 1200000 and ms' = 1200001 and s = demo_state0 and address = "''addr1''"
      and signature = "''signed:addr1/addr1 starRegistry''" and st = "''Vega''"]
  from th c have p: "parseInt (ToString (index (split CHR '':'' ''addr1 starRegistry'') MESSAGE_TIME_INDEX)) = None"
    by blast
  with th have "submitStar demo 1200000 1200001 demo_state0 ''addr1'' ''addr1 starRegistry''
        ''signed:addr1/addr1 starRegistry'' ''Vega''
      = (Rejected (Message ''Exceeded validation time of 5 minutes''), demo_state0, [])"
    by blast
  with c p v show ?thesis by blast
qed

subsection \<open>Queries\<close>

text \<open>
  C8. \<open>getBlockByHash\<close> with a hash that no block has is rejected with the message
  that no such block exists, and with a hash that some block has it resolves with the
  first such block in chain order. \<open>getBlockByHeight\<close> with a height that no block has
  resolves with \<open>null\<close>, and it is never rejected nor left unsettled.
\<close>

theorem lookup_asymmetry:
  "((\<forall>x \<in> set (chain s). hash x \<noteq> Some h) \<longrightarrow>
      getBlockByHash s h = Rejected (Message ''No block with given hash exists''))
   \<and> (chain s = pre @ b # post \<and> hash b = Some h \<and> (\<forall>x \<in> set pre. hash x \<noteq> Some h) \<longrightarrow>
        getBlockByHash s h = Resolved b)
   \<and> ((\<forall>x \<in> set (chain s). Some (height x) \<noteq> n) \<longrightarrow> getBlockByHeight s n = Resolved None)
   \<and> (\<forall>r. getBlockByHeight s n \<noteq> Rejected r) \<and> getBlockByHeight s n \<noteq> Unsettled"
proof (intro conjI impI allI)
  assume "\<forall>x \<in> set (chain s). hash x \<noteq> Some h"
  then have "filter (\<lambda>block. hash block = Some h) (chain s) = []" by (simp add: filter_empty_conv)
  then show "getBlockByHash s h = Rejected (Message ''No block with given hash exists'')"
    by (simp add: getBlockByHash_def)
next
  assume a: "chain s = pre @ b # post \<and> hash b = Some h \<and> (\<forall>x \<in> set pre. hash x \<noteq> Some h)"
  then have "filter (\<lambda>block. hash block = Some h) pre = []" by (simp add: filter_empty_conv)
  with a show "getBlockByHash s h = Resolved b" by (simp add: getBlockByHash_def)
next
  assume "\<forall>x \<in> set (chain s). Some (height x) \<noteq> n"
  then have "filter (\<lambda>p. Some (height p) = n) (chain s) = []" by (simp add: filter_empty_conv)
  then show "getBlockByHeight s n = Resolved None" by (simp add: getBlockByHeight_def)
next
  fix r show "getBlockByHeight s n \<noteq> Rejected r"
    by (simp add: getBlockByHeight_def split: list.splits)
next
  show "getBlockByHeight s n \<noteq> Unsettled"
    by (simp add: getBlockByHeight_def split: list.splits)
qed

theorem lookup_asymmetry_witness:
  "getBlockByHash demo_state1 ''0000'' = Rejected (Message ''No block with given hash exists'')
   \<and> getBlockByHash demo_state1 ''3145'' = Resolved demo_block1
   \<and> getBlockByHeight demo_state1 (Some 7) = Resolved None"
proof -
  have c: "chain demo_state1 = [demo_genesis] @ demo_block1 # []" by (simp add: demo_state1_def)
  have m: "\<forall>x \<in> set (chain demo_state1). hash x \<noteq> Some ''0000''"
    by (simp add: demo_state1_def demo_fields)
  have f: "chain demo_state1 = [demo_genesis] @ demo_block1 # [] \<and> hash demo_block1 = Some ''3145''
      \<and> (\<forall>x \<in> set [demo_genesis]. hash x \<noteq> Some ''3145'')"
    using c by (simp add: demo_fields)
  have g: "\<forall>x \<in> set (chain demo_state1). Some (height x) \<noteq> Some 7"
    by (simp add: demo_state1_def demo_fields)
  show ?thesis
    using lookup_asymmetry [of demo_state1 "''0000''" "[]" demo_genesis "[demo_block1]" "Some 7"]
      lookup_asymmetry [of demo_state1 "''3145''" "[demo_genesis]" demo_block1 "[]" "Some 7"] m f g
    by blast
qed

lemma stars_filter_map:
  "map (\<lambda>block. case block of None \<Rightarrow> None | Some d \<Rightarrow> field_star d)
     (filter (\<lambda>block. case block of None \<Rightarrow> False | Some d \<Rightarrow> field_owner d = Some address)
        (map (getBData ext) bs))
   = map Some (stars_of_owner ext address bs)"
proof (induction bs)
  case Nil
  show ?case by simp
next
  case (Cons b bs)
  show ?case
  proof (cases "getBData ext b")
    case None
    then show ?thesis using Cons.IH by simp
  next
    case (Some d)
    then show ?thesis using Cons.IH by (cases d) simp_all
  qed
qed

text \<open>
  C9. \<open>getStarsByWalletAddress\<close> resolves with the stars of exactly those blocks whose
  decoded payload has the address as owner, in chain order; a block whose payload decodes
  to nothing or has no owner, as the genesis payload, is passed over.
\<close>

theorem getStarsByWalletAddress_stars_of_owner:
  "getStarsByWalletAddress ext s address = Resolved (map Some (stars_of_owner ext address (chain s)))"
  by (simp add: getStarsByWalletAddress_def Let_def stars_filter_map)

theorem getStarsByWalletAddress_witness:
  "getStarsByWalletAddress demo demo_state1 ''addr1'' = Resolved [Some ''Vega'']
   \<and> getStarsByWalletAddress demo demo_state1 ''addr2'' = Resolved []"
  using getStarsByWalletAddress_stars_of_owner [of demo demo_state1 "''addr1''"]
    getStarsByWalletAddress_stars_of_owner [of demo demo_state1 "''addr2''"]
  by (simp add: demo_state1_def demo_def demo_getBData_def demo_fields demo_star_def)

end
